theory Spec2Isabelle
  imports Complex_Main "HOL-Library.Char_ord" "HOL-Library.List_Lexorder"
    "HOL-Library.Product_Lexorder" "HOL-Library.Multiset"
begin

section \<open>Retry policy\<close>

text \<open>
  The class \<open>RetryPolicy\<close> of \<open>app/mcp/retry_policy.py\<close>, as printed in
  \<open>docs/MCP_OPTIMIZATION_RECOMMENDATIONS.md\<close> and in
  \<open>docs/guides/mcp-a2a-integration.md\<close>. Python floats are read as reals, and the
  value returned by \<open>random.random()\<close> is an explicit argument.
\<close>

record retry_policy =
  max_retries :: int
  base_delay :: real
  max_delay :: real
  exponential_base :: real
  jitter :: bool

text \<open>
  \<open>get_delay(attempt)\<close>: the capped exponential delay, multiplied by
  \<open>0.5 + random.random()\<close> when jitter is on. The argument \<open>r\<close> is the draw.
\<close>

definition get_delay :: "retry_policy \<Rightarrow> nat \<Rightarrow> real \<Rightarrow> real" where
  "get_delay p attempt r =
     (let delay = min (base_delay p * exponential_base p ^ attempt) (max_delay p)
      in if jitter p then delay * (0.5 + r) else delay)"


text \<open>
  How a run of \<open>execute_with_retry\<close> ends: it returns the value of \<open>func\<close>, it
  raises an exception of \<open>func\<close>, or its \<open>for\<close> loop runs out. The first listing
  then executes \<open>raise last_exception\<close>, which is a \<open>TypeError\<close> when
  \<open>last_exception\<close> is still \<open>None\<close>; the second listing falls off the end of the
  function and returns \<open>None\<close>.
\<close>

datatype ('e, 'a) outcome =
    Returned 'a
  | Raised 'e
  | RaisedTypeError
  | ReturnedNone

text \<open>
  What is observed of a run: how it ended, the result of every call of \<open>func\<close> in
  order, the delays slept, and the state \<open>func\<close> left behind.
\<close>

record ('e, 'a, 's) run =
  result :: "('e, 'a) outcome"
  trace :: "('e + 'a) list"
  slept :: "real list"
  world :: 's

definition calls :: "('e, 'a, 's) run \<Rightarrow> nat" where
  "calls r = length (trace r)"

text \<open>\<open>should_retry and not should_retry(e)\<close>: an absent predicate never stops the loop.\<close>

definition gives_up :: "('e \<Rightarrow> bool) option \<Rightarrow> 'e \<Rightarrow> bool" where
  "gives_up should_retry e = (case should_retry of None \<Rightarrow> False | Some f \<Rightarrow> \<not> f e)"

text \<open>
  The body of \<open>for attempt in range(self.max_retries + 1)\<close>, by recursion on the
  attempts still to run. \<open>func\<close> acts on a state of its own, so that successive calls
  may differ; \<open>rnd attempt\<close> is the draw used for the delay after that attempt. The
  argument \<open>ending\<close> is what the listing does once the loop has run out.
\<close>

fun retry_loop ::
  "retry_policy \<Rightarrow> ('s \<Rightarrow> ('e + 'a) \<times> 's) \<Rightarrow> ('e \<Rightarrow> bool) option \<Rightarrow> (nat \<Rightarrow> real) \<Rightarrow>
   ('e option \<Rightarrow> ('e, 'a) outcome) \<Rightarrow> nat list \<Rightarrow> 'e option \<Rightarrow>
   ('e + 'a) list \<Rightarrow> real list \<Rightarrow> 's \<Rightarrow> ('e, 'a, 's) run" where
  "retry_loop p func should_retry rnd ending [] last_exception tr ds s =
     \<lparr>result = ending last_exception, trace = tr, slept = ds, world = s\<rparr>"
| "retry_loop p func should_retry rnd ending (attempt # rest) last_exception tr ds s =
     (case func s of
        (Inr v, s') \<Rightarrow>
          \<lparr>result = Returned v, trace = tr @ [Inr v], slept = ds, world = s'\<rparr>
      | (Inl e, s') \<Rightarrow>
          if gives_up should_retry e then
            \<lparr>result = Raised e, trace = tr @ [Inl e], slept = ds, world = s'\<rparr>
          else if int attempt \<ge> max_retries p then
            \<lparr>result = Raised e, trace = tr @ [Inl e], slept = ds, world = s'\<rparr>
          else
            retry_loop p func should_retry rnd ending rest (Some e) (tr @ [Inl e])
              (ds @ [get_delay p attempt (rnd attempt)]) s')"

text \<open>\<open>range(n)\<close> for a Python integer \<open>n\<close>: empty when \<open>n \<le> 0\<close>.\<close>

definition py_range :: "int \<Rightarrow> nat list" where
  "py_range n = [0..<nat n]"

text \<open>The listing of \<open>MCP_OPTIMIZATION_RECOMMENDATIONS.md\<close>, ending in \<open>raise last_exception\<close>.\<close>

definition raise_last :: "'e option \<Rightarrow> ('e, 'a) outcome" where
  "raise_last last_exception = (case last_exception of None \<Rightarrow> RaisedTypeError | Some e \<Rightarrow> Raised e)"

definition execute_with_retry ::
  "retry_policy \<Rightarrow> ('s \<Rightarrow> ('e + 'a) \<times> 's) \<Rightarrow> ('e \<Rightarrow> bool) option \<Rightarrow> (nat \<Rightarrow> real) \<Rightarrow> 's \<Rightarrow>
   ('e, 'a, 's) run" where
  "execute_with_retry p func should_retry rnd s =
     retry_loop p func should_retry rnd raise_last (py_range (max_retries p + 1)) None [] [] s"

text \<open>The listing of \<open>guides/mcp-a2a-integration.md\<close>, with nothing after the loop.\<close>

definition execute_with_retry_guide ::
  "retry_policy \<Rightarrow> ('s \<Rightarrow> ('e + 'a) \<times> 's) \<Rightarrow> ('e \<Rightarrow> bool) option \<Rightarrow> (nat \<Rightarrow> real) \<Rightarrow> 's \<Rightarrow>
   ('e, 'a, 's) run" where
  "execute_with_retry_guide p func should_retry rnd s =
     retry_loop p func should_retry rnd (\<lambda>_. ReturnedNone) (py_range (max_retries p + 1)) None [] [] s"

text \<open>
  A function used to run the loop on concrete inputs: the state counts the calls made so
  far, call number \<open>k\<close> raises error \<open>k\<close> while \<open>k < n\<close> and returns \<open>k\<close> afterwards.
\<close>

definition fails_first :: "nat \<Rightarrow> nat \<Rightarrow> (nat + nat) \<times> nat" where
  "fails_first n k = (if k < n then (Inl k, Suc k) else (Inr k, Suc k))"

definition default_policy :: retry_policy where
  "default_policy =
     \<lparr>max_retries = 3, base_delay = 1, max_delay = 60, exponential_base = 2, jitter = True\<rparr>"

section \<open>Cache manager\<close>





















section \<open>Health checks of the service mesh\<close>

text \<open>
  \<open>MCPMesh._check_all_nodes\<close> of \<open>app/mcp/service_mesh.py\<close>, as printed in
  \<open>docs/MCP_OPTIMIZATION_RECOMMENDATIONS.md\<close>. A probe of a node is one pass through
  the \<open>try\<close> block: \<open>_ping_node\<close> answers true or false after some latency, or an
  exception is raised. The \<open>_ping_node\<close> of the listing is a placeholder for the
  actual request, so the outcome of the probe is an argument.
\<close>

datatype node_status = ONLINE | DEGRADED | OFFLINE

datatype probe = Healthy real | Unhealthy real | Failed

record mcp_node =
  status :: node_status
  avg_latency :: real

fun check_node :: "mcp_node \<Rightarrow> probe \<Rightarrow> mcp_node" where
  "check_node node (Healthy latency) =
     (let node' = node\<lparr>avg_latency := 0.9 * avg_latency node + 0.1 * latency\<rparr>
      in if status node' = DEGRADED then node'\<lparr>status := ONLINE\<rparr> else node')"
| "check_node node (Unhealthy latency) =
     (if status node = ONLINE then node\<lparr>status := DEGRADED\<rparr> else node)"
| "check_node node Failed =
     (if status node \<noteq> OFFLINE then node\<lparr>status := OFFLINE\<rparr> else node)"

text \<open>One round of the loop over \<open>self.nodes.items()\<close>, each node with its own probe.\<close>

definition check_all_nodes :: "('id \<rightharpoonup> mcp_node) \<Rightarrow> ('id \<Rightarrow> probe) \<Rightarrow> ('id \<rightharpoonup> mcp_node)" where
  "check_all_nodes nodes probes = (\<lambda>node_id. map_option (\<lambda>node. check_node node (probes node_id)) (nodes node_id))"

text \<open>The rounds of \<open>_health_check_loop\<close> as seen by one node: its probes in order.\<close>

definition check_rounds :: "mcp_node \<Rightarrow> probe list \<Rightarrow> mcp_node" where
  "check_rounds node probes = fold (\<lambda>pr n. check_node n pr) probes node"

section \<open>Batch processor of the learning queue\<close>








section \<open>Gating network and expert routing\<close>

text \<open>
  \<open>GatingNetwork.forward\<close>, as printed in the technical notes. The listing shows only
  \<open>forward\<close>: the linear layers and the batch normalisations are fields of the network,
  the latter taking the mode of the module. \<open>Dropout\<close> multiplies by a random mask in
  training mode and is the identity otherwise. The random mask of each dropout and the
  value of \<open>torch.randn_like(logits)\<close> are explicit arguments.
\<close>

type_synonym vec = "real list"

record gating_network =
  fc1 :: "vec \<Rightarrow> vec"
  bn1 :: "bool \<Rightarrow> vec \<Rightarrow> vec"
  fc2 :: "vec \<Rightarrow> vec"
  bn2 :: "bool \<Rightarrow> vec \<Rightarrow> vec"
  fc3 :: "vec \<Rightarrow> vec"

record randomness =
  mask1 :: vec
  mask2 :: vec
  noise :: vec

definition relu :: "vec \<Rightarrow> vec" where
  "relu x = map (\<lambda>v. max 0 v) x"

definition dropout :: "bool \<Rightarrow> vec \<Rightarrow> vec \<Rightarrow> vec" where
  "dropout training keep x = (if training then map2 (*) keep x else x)"

definition softmax :: "vec \<Rightarrow> vec" where
  "softmax logits = map (\<lambda>v. exp v / sum_list (map exp logits)) logits"

definition forward :: "gating_network \<Rightarrow> bool \<Rightarrow> randomness \<Rightarrow> vec \<Rightarrow> vec" where
  "forward net training rnd context_embedding =
     (let x = relu (bn1 net training (fc1 net context_embedding));
          x = dropout training (mask1 rnd) x;
          x = relu (bn2 net training (fc2 net x));
          x = dropout training (mask2 rnd) x;
          logits = fc3 net x;
          logits = (if training then map2 (+) logits (map (\<lambda>z. z * 0.1) (noise rnd)) else logits)
      in softmax logits)"







section \<open>Properties of the retry loop\<close>

lemma retry_loop_trace_length:
  "length (trace (retry_loop p func sr rnd ending as le tr ds s)) \<le> length tr + length as"
proof (induction as arbitrary: le tr ds s)
  case Nil
  then show ?case by simp
next
  case (Cons a as)
  show ?case
  proof (cases "func s")
    case (Pair x s')
    show ?thesis
    proof (cases x)
      case (Inl e)
      with Pair Cons.IH [of "Some e" "tr @ [Inl e]" "ds @ [get_delay p a (rnd a)]" s']
      show ?thesis by simp
    next
      case (Inr v)
      with Pair show ?thesis by simp
    qed
  qed
qed

text \<open>
  C1. For a retry budget \<open>max_retries \<ge> 0\<close>, any \<open>func\<close> and any \<open>should_retry\<close>, one
  run of \<open>execute_with_retry\<close> calls \<open>func\<close> at most \<open>max_retries + 1\<close> times, the first
  attempt included; the same holds for the listing of the integration guide.
\<close>

theorem execute_with_retry_attempt_bound:
  assumes "0 \<le> max_retries p"
  shows "int (calls (execute_with_retry p func should_retry rnd s)) \<le> max_retries p + 1
       \<and> int (calls (execute_with_retry_guide p func should_retry rnd s)) \<le> max_retries p + 1"
proof -
  have len: "int (length (py_range (max_retries p + 1))) = max_retries p + 1"
    using assms by (simp add: py_range_def)
  have "length (trace (execute_with_retry p func should_retry rnd s))
          \<le> length (py_range (max_retries p + 1))"
    using retry_loop_trace_length
      [of p func should_retry rnd raise_last "py_range (max_retries p + 1)" None "[]" "[]" s]
    by (simp add: execute_with_retry_def)
  moreover have "length (trace (execute_with_retry_guide p func should_retry rnd s))
          \<le> length (py_range (max_retries p + 1))"
    using retry_loop_trace_length
      [of p func should_retry rnd "\<lambda>_. ReturnedNone" "py_range (max_retries p + 1)" None "[]" "[]" s]
    by (simp add: execute_with_retry_guide_def)
  ultimately show ?thesis
    using len by (simp add: calls_def)
qed

theorem execute_with_retry_attempt_bound_witness:
  "0 \<le> max_retries default_policy
   \<and> calls (execute_with_retry default_policy (fails_first 10) None (\<lambda>_. 0) 0) = 4
   \<and> int (calls (execute_with_retry default_policy (fails_first 10) None (\<lambda>_. 0) 0))
        \<le> max_retries default_policy + 1
   \<and> int (calls (execute_with_retry_guide default_policy (fails_first 10) None (\<lambda>_. 0) 0))
        \<le> max_retries default_policy + 1"
  using execute_with_retry_attempt_bound [of default_policy "fails_first 10" None "\<lambda>_. 0" 0]
  by (simp add: default_policy_def execute_with_retry_def py_range_def calls_def
      fails_first_def gives_up_def upt_rec get_delay_def)









section \<open>Properties of the cache manager\<close>







section \<open>Properties of the health checks\<close>

text \<open>
  C5 as stated fails: one probe that raises an exception takes a node that is online
  straight to offline.
\<close>

theorem check_node_online_to_offline_counterexample:
  "status (check_node \<lparr>status = ONLINE, avg_latency = 0\<rparr> Failed) = OFFLINE"
  by simp

lemma check_node_not_failed:
  "pr \<noteq> Failed \<Longrightarrow> status n \<noteq> OFFLINE \<Longrightarrow> status (check_node n pr) \<noteq> OFFLINE"
  by (cases pr) (auto simp: Let_def)

lemma check_rounds_not_failed:
  "Failed \<notin> set probes \<Longrightarrow> status n \<noteq> OFFLINE \<Longrightarrow> status (check_rounds n probes) \<noteq> OFFLINE"
  unfolding check_rounds_def
proof (induction probes arbitrary: n)
  case Nil
  then show ?case by simp
next
  case (Cons pr probes)
  from Cons.prems have "pr \<noteq> Failed" and "Failed \<notin> set probes" by auto
  with Cons.prems(2) have "status (check_node n pr) \<noteq> OFFLINE"
    using check_node_not_failed by blast
  with Cons.IH [OF \<open>Failed \<notin> set probes\<close>] show ?case by simp
qed

text \<open>
  C5, amended. A probe that answers unhealthy moves an online node to degraded and
  leaves every other node as it is; a probe that raises moves the node to offline from
  any status, at the first such probe; a healthy probe moves a degraded node to online
  and leaves an offline node offline. A node that is not offline stays so through any
  sequence of probes none of which raises, however many of them answer unhealthy: no
  count of consecutive failures is kept.
\<close>

theorem check_node_transitions:
  "status (check_node n (Unhealthy l)) = (if status n = ONLINE then DEGRADED else status n)
   \<and> status (check_node n Failed) = OFFLINE
   \<and> status (check_node n (Healthy l)) = (if status n = DEGRADED then ONLINE else status n)
   \<and> (Failed \<notin> set probes \<and> status n \<noteq> OFFLINE \<longrightarrow> status (check_rounds n probes) \<noteq> OFFLINE)"
  using check_rounds_not_failed [of probes n] by (simp add: Let_def)

theorem check_node_transitions_witness:
  "Failed \<notin> set [Unhealthy 1, Unhealthy 1, Unhealthy 1]
   \<and> status (check_rounds \<lparr>status = ONLINE, avg_latency = 0\<rparr> [Unhealthy 1, Unhealthy 1, Unhealthy 1]) = DEGRADED
   \<and> status (check_node \<lparr>status = ONLINE, avg_latency = 0\<rparr> (Unhealthy 1)) = DEGRADED
   \<and> status (check_node \<lparr>status = DEGRADED, avg_latency = 0\<rparr> (Healthy 1)) = ONLINE"
  using check_node_transitions [of "\<lparr>status = ONLINE, avg_latency = 0\<rparr>" 1 "[Unhealthy 1, Unhealthy 1, Unhealthy 1]"]
    check_node_transitions [of "\<lparr>status = DEGRADED, avg_latency = 0\<rparr>" 1 "[]"]
  by (simp add: check_rounds_def)

section \<open>Properties of the gating network\<close>

text \<open>
  C9. With training disabled, the weights computed by \<open>forward\<close> do not depend on any
  random draw: two runs on the same context embedding give the same expert weights,
  namely the softmax of the plain composition of the layers. The noise enters the logits,
  and the dropout masks enter the activations, under \<open>training\<close> only.
\<close>

theorem forward_eval_deterministic:
  "forward net False rnd context_embedding = forward net False rnd' context_embedding
   \<and> forward net False rnd context_embedding
       = softmax (fc3 net (relu (bn2 net False (fc2 net (relu (bn1 net False
           (fc1 net context_embedding)))))))"
proof -
  have "forward net False r context_embedding
          = softmax (fc3 net (relu (bn2 net False (fc2 net (relu (bn1 net False
              (fc1 net context_embedding)))))))" for r
    by (simp add: forward_def dropout_def)
  then show ?thesis by simp
qed

section \<open>Properties of the batch processor\<close>












section \<open>Properties of the cache key\<close>










section \<open>Properties of the expert routing\<close>









end
